theory Spec2Isabelle
  imports Complex_Main
begin

section \<open>Numbers\<close>

text \<open>
  The program computes with IEEE doubles (Python floats and numpy float64). The model
  idealises a finite double as a real number, so rounding is not represented. Python's
  \<open>x ** y\<close> is \<open>float_pow\<close>: it agrees with \<open>powr\<close> for a positive base, gives 0 for
  base 0 and a positive exponent, and gives 1 for exponent 0 whatever the base. The model
  is the program where every base of a power is non-negative, every argument of a
  logarithm is positive and every denominator is non-zero; the theorems below state
  these conditions where they need them.
\<close>

definition float_pow :: "real \<Rightarrow> real \<Rightarrow> real" where
  "float_pow x y = (if y = 0 then 1 else x powr y)"

section \<open>TCPC.py: the three-characteristic-parameter correlation\<close>

record Salt =
  zplus :: real
  zmin :: real
  vplus :: real
  vmin :: real
  salt_b :: real
  salt_S :: real
  salt_n :: real

text \<open>The class attributes \<open>Aphi\<close> and \<open>T\<close> of \<open>Salt\<close>.\<close>

definition Salt_Aphi :: real where
  "Salt_Aphi = 0.392"

definition Salt_T :: real where
  "Salt_T = 298.15"

definition TCPC :: "Salt \<Rightarrow> real \<Rightarrow> real" where
  "TCPC s I =
     (let fgamma = - Salt_Aphi *
            (float_pow I 0.5 / (1 + salt_b s * float_pow I 0.5)
             + (2 / salt_b s) * ln (1 + salt_b s * float_pow I 0.5));
          gammaSV = (salt_S s / Salt_T) * float_pow I (2 * salt_n s) / (vplus s + vmin s)
      in exp ((zplus s * zmin s) * fgamma + gammaSV))"

definition osmo :: "Salt \<Rightarrow> real \<Rightarrow> real" where
  "osmo s I =
     1 - (zplus s * zmin s)
         * Salt_Aphi * (float_pow I 0.5 / (1 + salt_b s * float_pow I 0.5))
       + (salt_S s / (Salt_T * (vplus s + vmin s)))
         * (2 * salt_n s / (2 * salt_n s + 1)) * float_pow I (2 * salt_n s)"

text \<open>
  The parameters for which the two formulas are evaluated without a zero denominator at
  \<open>I = 0\<close> and with \<open>0 ** (2 n) = 0\<close>: \<open>2 / b\<close> and the division by \<open>vplus + vmin\<close>
  need non-zero denominators, and Python's \<open>0 ** (2 n)\<close> is 0 only for \<open>n > 0\<close>.
\<close>

definition valid_salt :: "Salt \<Rightarrow> bool" where
  "valid_salt s \<longleftrightarrow> salt_b s \<noteq> 0 \<and> vplus s + vmin s \<noteq> 0 \<and> 0 < salt_n s"

section \<open>exergy_TCPC.py: molar flows, mole fractions, entropy and exergy\<close>

definition NaCl :: Salt where
  "NaCl = \<lparr>zplus = 1, zmin = 1, vplus = 1, vmin = 1,
           salt_b = 3.0210, salt_S = 36.1573, salt_n = 0.8998\<rparr>"

text \<open>
  \<open>moles\<close> returns the list \<open>[nNa, nCl, nH2O, nTot]\<close> and \<open>fractions\<close> the list
  \<open>[xNa, xCl, xH2O]\<close>; both have a fixed shape and are tuples here.
\<close>

definition moles :: "real \<Rightarrow> real \<Rightarrow> real \<times> real \<times> real \<times> real" where
  "moles C f =
     (let MW_NaCl = 58.44 / 1000; MW_H2O = 18.01 / 1000;
          dens = (0.0375 * (C / 1000) + 0.9987) * 1000;
          nNa = C * f;
          nCl = C * f;
          nH2O = f * (dens - C * MW_NaCl) / MW_H2O;
          nTot = nNa + nCl + nH2O
      in (nNa, nCl, nH2O, nTot))"

fun fractions :: "real \<times> real \<times> real \<times> real \<Rightarrow> real \<times> real \<times> real" where
  "fractions (n0, n1, n2, n3) = (n0 / n3, n1 / n3, n2 / n3)"

definition activity :: "real \<Rightarrow> real" where
  "activity C = TCPC NaCl (C / 1000)"

text \<open>
  \<open>entropy\<close> returns \<open>[n, x, y, entropy]\<close>; the fourth component is the entropy rate.
\<close>

definition entropy ::
  "real \<Rightarrow> real \<Rightarrow> (real \<times> real \<times> real \<times> real) \<times> (real \<times> real \<times> real) \<times> real \<times> real" where
  "entropy C f =
     (let n = moles C f;
          x = fractions n;
          y = activity C;
          R = 8.314;
          n3 = snd (snd (snd n));
          x0 = fst x; x1 = fst (snd x); x2 = snd (snd x);
          ent = - R * n3 * (x0 * ln (y * x0) + x1 * ln (y * x1) + x2 * ln x2)
      in (n, x, y, ent))"


definition exergy ::
  "real \<Rightarrow> real \<Rightarrow> real \<Rightarrow> real \<Rightarrow> real \<Rightarrow> real \<Rightarrow> real \<Rightarrow> real list \<times> real" where
  "exergy T cSW cRW cMix fSW fRW fMix =
     (let SW = entropy cSW fSW;
          RW = entropy cRW fRW;
          Mix = entropy cMix fMix;
          S = [snd (snd (snd SW)), snd (snd (snd RW)), snd (snd (snd Mix))];
          ex = T * (snd (snd (snd Mix)) - snd (snd (snd SW)) - snd (snd (snd RW)))
      in (S, ex))"

section \<open>Errors and non-finite results\<close>

text \<open>
  The exceptions the program can raise. Arithmetic on numpy values never raises: a
  division by zero there returns \<open>inf\<close> or \<open>nan\<close> (with a warning), which
  \<open>np_divide\<close> records as \<open>NonFinite\<close>.
\<close>

datatype error = ZeroDivisionError | ValueError | AttributeError | IndexError

datatype npfloat = Finite real | NonFinite

definition np_divide :: "real \<Rightarrow> real \<Rightarrow> npfloat" where
  "np_divide p q = (if q = 0 then NonFinite else Finite (p / q))"

text \<open>
  An elementwise operation on two numpy arrays: equal lengths are combined pointwise, an
  array of length 1 is broadcast, any other pair of shapes raises ValueError.
\<close>

definition broadcast2 ::
  "(real \<Rightarrow> real \<Rightarrow> real) \<Rightarrow> real list \<Rightarrow> real list \<Rightarrow> error + real list" where
  "broadcast2 g u v =
     (if length u = length v then Inr (map2 g u v)
      else if length u = 1 then Inr (map (g (hd u)) v)
      else if length v = 1 then Inr (map (\<lambda>z. g z (hd v)) u)
      else Inl ValueError)"

section \<open>The library routines\<close>

text \<open>
  \<open>numpy.linspace(start, stop, num)\<close>: \<open>num\<close> samples \<open>i * step + start\<close> with
  \<open>step = (stop - start) / (num - 1)\<close>, the last one set to \<open>stop\<close>; a single sample is
  \<open>start\<close>, and a negative \<open>num\<close> raises ValueError (in \<open>CoFlow_init\<close> below).
\<close>

definition linspace :: "real \<Rightarrow> real \<Rightarrow> nat \<Rightarrow> real list" where
  "linspace start stop num =
     (if num \<le> 1 then map (\<lambda>i. real i * (stop - start) + start) [0..<num]
      else (let step = (stop - start) / real (num - 1);
                y = map (\<lambda>i. real i * step + start) [0..<num]
            in y[num - 1 := stop]))"

text \<open>
  \<open>scipy.integrate.odeint(func, y0, t)\<close> returns one row per point of \<open>t\<close>, the first
  row being \<open>y0\<close>. The LSODA stepping that produces each further row is not part of
  the repository: it is the parameter \<open>adv\<close>, which sees the right-hand side, the rows
  and points so far and the next point. A step that fails to converge does not raise:
  odeint warns and returns the rows it has, so a failed step is just some value of
  \<open>adv\<close>. odeint evaluates \<open>func\<close> at \<open>(y0, t[0])\<close> before the first step, and an
  exception of \<open>func\<close> propagates.
\<close>

type_synonym rhs = "real \<times> real \<Rightarrow> real \<Rightarrow> error + real \<times> real"

type_synonym integrator = "rhs \<Rightarrow> (real \<times> real) list \<Rightarrow> real list \<Rightarrow> real \<Rightarrow> real \<times> real"

fun odeint_rows ::
  "integrator \<Rightarrow> rhs \<Rightarrow> (real \<times> real) list \<Rightarrow> real list \<Rightarrow> real list \<Rightarrow> (real \<times> real) list" where
  "odeint_rows adv func rows ts [] = rows"
| "odeint_rows adv func rows ts (t # rest) =
     odeint_rows adv func (rows @ [adv func rows ts t]) (ts @ [t]) rest"

definition odeint :: "integrator \<Rightarrow> rhs \<Rightarrow> real \<times> real \<Rightarrow> real list \<Rightarrow> error + (real \<times> real) list" where
  "odeint adv func y0 t =
     (case t of
        [] \<Rightarrow> Inr []
      | t0 # rest \<Rightarrow>
          (case func y0 t0 of
             Inl e \<Rightarrow> Inl e
           | Inr dy \<Rightarrow> Inr (odeint_rows adv func [y0] [t0] rest)))"

text \<open>
  \<open>scipy.integrate.simps(y, x)\<close>, the library's Simpson-rule quadrature of the samples
  \<open>y\<close> over the points \<open>x\<close>, is the parameter \<open>simps\<close> of the functions that call it.
\<close>

type_synonym quadrature = "real list \<Rightarrow> real list \<Rightarrow> real"

text \<open>
  Two integrators and a quadrature for closed examples: an explicit Euler step, a step
  that has failed and left \<open>-1\<close> in both columns, and the trapezoid rule (which is what
  the Simpson routine computes on two points).
\<close>

definition euler_step :: integrator where
  "euler_step func rows ts t =
     (case func (last rows) (last ts) of
        Inl e \<Rightarrow> last rows
      | Inr dy \<Rightarrow> (fst (last rows) + (t - last ts) * fst dy,
                  snd (last rows) + (t - last ts) * snd dy))"

definition failed_step :: integrator where
  "failed_step func rows ts t = (- 1, - 1)"

fun trapezoid :: quadrature where
  "trapezoid (y0 # y1 # ys) (x0 # x1 # xs) =
     (x1 - x0) * (y0 + y1) / 2 + trapezoid (y1 # ys) (x1 # xs)"
| "trapezoid ys xs = 0"

text \<open>
  An integrator is exact on equilibria when, from a state at which the right-hand side
  vanishes for every position, it returns that same state.
\<close>

definition exact_on_equilibria :: "integrator \<Rightarrow> bool" where
  "exact_on_equilibria adv \<longleftrightarrow>
     (\<forall>func rows ts t. rows \<noteq> [] \<and> (\<forall>x. func (last rows) x = Inr (0, 0))
        \<longrightarrow> adv func rows ts t = last rows)"

section \<open>coFlow_NaCl_outputs.py: power and efficiencies\<close>

definition power_density ::
  "quadrature \<Rightarrow> real \<Rightarrow> real list \<Rightarrow> real list \<Rightarrow> real \<Rightarrow> real \<Rightarrow> real list \<Rightarrow> real \<times> real" where
  "power_density simps Uload E Rcell W L x =
     (let U = Uload;
          Pd = map2 (\<lambda>e r. (e * U - U ^ 2) / r) E Rcell;
          Pd_avg = simps Pd x / (2 * L);
          Power_tot = Pd_avg * (2 * W * L)
      in (Power_tot, Pd_avg))"

text \<open>
  \<open>cSW[-1]\<close> and \<open>cRW[-1]\<close> raise IndexError on an empty array. The two quotients at the
  end are numpy divisions.
\<close>

definition efficiencies ::
  "real list \<Rightarrow> real list \<Rightarrow> real \<Rightarrow> real \<Rightarrow> real \<Rightarrow> real \<Rightarrow> error + npfloat \<times> npfloat" where
  "efficiencies cRW cSW fRW fSW Temp Power =
     (if cSW = [] \<or> cRW = [] then Inl IndexError
      else
        (let cSWout = last cSW;
             cRWout = last cRW;
             fMix = fRW + fSW
         in (case broadcast2 (\<lambda>s r. (fSW * s + fRW * r) / fMix) cSW cRW of
               Inl e \<Rightarrow> Inl e
             | Inr cMix \<Rightarrow>
                 (let cMixout = (fSW * cSWout + fRW * cRWout) / fMix;
                      dG_in = snd (exergy Temp (cSW ! 0) (cRW ! 0) (cMix ! 0) fSW fRW fMix);
                      dG_out = snd (exergy Temp cSWout cRWout cMixout fSW fRW fMix);
                      eta_energy = np_divide (100 * Power) dG_in;
                      eta_thermo = np_divide (100 * Power) (dG_in - dG_out)
                  in Inr (eta_energy, eta_thermo)))))"

section \<open>model_class.py: the co-flow stack\<close>

text \<open>
  The membrane attributes \<open>Raem, Rcem, a, Dnacl, Dw, Hm, Keosm\<close> are assigned together
  or not at all; \<open>None\<close> is the object on which they were never assigned.
\<close>

record Membrane =
  m_Raem :: real
  m_Rcem :: real
  m_a :: real
  m_Dnacl :: real
  m_Dw :: real
  m_Hm :: real
  m_Keosm :: real

record CoFlow =
  cf_NaCl :: Salt
  cf_R :: real
  cf_Temp :: real
  cf_Fad :: real
  cf_Vw :: real
  cf_obstr :: real
  cf_Lambda :: real
  cf_tRW :: real
  cf_tSW :: real
  cf_W :: real
  cf_L :: real
  cf_d :: real
  cf_fSW :: real
  cf_fRW :: real
  cf_membrane :: "Membrane option"
  cf_Uload :: real
  cf_cSW0 :: real
  cf_cRW0 :: real
  cf_Qzero :: "real \<times> real"
  cf_x :: "real list"
  cf_solved :: bool
  cf_cRW :: "real list option"
  cf_cSW :: "real list option"
  cf_E :: "real list option"
  cf_Rcell :: "real list option"
  cf_J :: "real list option"
  cf_power :: "real option"
  cf_pd_avg :: "real option"
  cf_eta_energy :: "npfloat option"
  cf_eta_thermo :: "npfloat option"

definition ideal_membrane :: Membrane where
  "ideal_membrane =
     \<lparr>m_Raem = 1 / 10 ^ 4, m_Rcem = 1 / 10 ^ 4, m_a = 0.90, m_Dnacl = 0, m_Dw = 0,
      m_Hm = 80 / 10 ^ 6, m_Keosm = 0\<rparr>"

definition fujifilm_membrane :: Membrane where
  "fujifilm_membrane =
     \<lparr>m_Raem = 1.77 / 10 ^ 4, m_Rcem = 2.69 / 10 ^ 4, m_a = 0.946, m_Dnacl = 1.5 / 10 ^ 12,
      m_Dw = 4.5 / 10 ^ 9, m_Hm = 145 / 10 ^ 6, m_Keosm = 6\<rparr>"

text \<open>
  \<open>CoFlow.__init__\<close>. The two flow rates divide by the residence times (Python numbers,
  so a zero raises ZeroDivisionError); the membrane is chosen by two independent \<open>if\<close>
  statements with no \<open>else\<close>; \<open>linspace\<close> raises ValueError for a negative count.
\<close>

definition CoFlow_init ::
  "real \<Rightarrow> real \<Rightarrow> real \<Rightarrow> real \<Rightarrow> real \<Rightarrow> string \<Rightarrow> real \<Rightarrow> real \<Rightarrow> real \<Rightarrow> int \<Rightarrow> error + CoFlow" where
  "CoFlow_init tRW tSW W L d membranes Uload cRW0 cSW0 intervals =
     (if tSW = 0 then Inl ZeroDivisionError
      else if tRW = 0 then Inl ZeroDivisionError
      else
        (let unset = None;
             after_ideal = (if membranes = ''Ideal CEM/AEM'' then Some ideal_membrane else unset);
             after_fuji = (if membranes = ''Fujifilm CEM/AEM type 10'' then Some fujifilm_membrane
                           else after_ideal)
         in if intervals < 0 then Inl ValueError
            else Inr
              \<lparr>cf_NaCl = \<lparr>zplus = 1, zmin = 1, vplus = 1, vmin = 1,
                          salt_b = 3.0210, salt_S = 36.1573, salt_n = 0.8998\<rparr>,
               cf_R = 8.3143, cf_Temp = 298.0, cf_Fad = 96485.0, cf_Vw = 18 / 10 ^ 6,
               cf_obstr = 1.65, cf_Lambda = 0.01287,
               cf_tRW = tRW, cf_tSW = tSW, cf_W = W, cf_L = L, cf_d = d,
               cf_fSW = L * W * d / tSW, cf_fRW = L * W * d / tRW,
               cf_membrane = after_fuji,
               cf_Uload = Uload, cf_cSW0 = cSW0, cf_cRW0 = cRW0, cf_Qzero = (cSW0, cRW0),
               cf_x = linspace 0 L (nat intervals),
               cf_solved = False,
               cf_cRW = None, cf_cSW = None, cf_E = None, cf_Rcell = None, cf_J = None,
               cf_power = None, cf_pd_avg = None,
               cf_eta_energy = None, cf_eta_thermo = None\<rparr>))"

definition water_ohmic_drop :: "CoFlow \<Rightarrow> real \<Rightarrow> real" where
  "water_ohmic_drop self C = cf_obstr self * cf_d self / (cf_Lambda self * C)"

text \<open>The method \<open>CoFlow.activity\<close>; it uses the module-level \<open>NaCl\<close>.\<close>

definition CoFlow_activity :: "CoFlow \<Rightarrow> real \<Rightarrow> real" where
  "CoFlow_activity self C = C * TCPC NaCl (C / 1000)"

text \<open>
  \<open>CoFlow.dQdx\<close>. Reading \<open>self.a\<close> is the first access to a membrane attribute; on an
  object without them it raises AttributeError.
\<close>

definition dQdx :: "CoFlow \<Rightarrow> rhs" where
  "dQdx self Q x =
     (case Q of (cSW, cRW) \<Rightarrow>
        (let rRW = water_ohmic_drop self cRW;
             rSW = water_ohmic_drop self cSW;
             aSW = CoFlow_activity self cSW;
             aRW = CoFlow_activity self cRW
         in (case cf_membrane self of
               None \<Rightarrow> Inl AttributeError
             | Some m \<Rightarrow>
                 (let preF = m_a m * 2 * cf_R self * cf_Temp self / cf_Fad self;
                      E = preF * ln (aSW / aRW);
                      Rcell = m_Raem m + m_Rcem m + rRW + rSW;
                      U = cf_Uload self;
                      J = (E - U) / Rcell;
                      Tnacl = J / cf_Fad self + (cSW - cRW) * 2 * m_Dnacl m / m_Hm m;
                      Tw = - (cSW - cRW) * 2 * m_Dw m * cf_Vw self / m_Hm m
                           + m_Keosm m * cf_Vw self * J / cf_Fad self;
                      dcSWdx = - cf_W self * Tnacl / cf_fSW self
                               + cf_W self * cSW * Tw / cf_fSW self;
                      dcRWdx = cf_W self * Tnacl / cf_fRW self
                               - cf_W self * cRW * Tw / cf_fRW self
                  in Inr (dcSWdx, dcRWdx)))))"

text \<open>
  \<open>CoFlow.solve_system\<close>. The profile returned by odeint is stored and post-processed
  as it is. \<open>self.a\<close> is read again after the integration.
\<close>

definition solve_system :: "integrator \<Rightarrow> quadrature \<Rightarrow> CoFlow \<Rightarrow> error + CoFlow" where
  "solve_system adv simps self =
     (case odeint adv (dQdx self) (cf_Qzero self) (cf_x self) of
        Inl e \<Rightarrow> Inl e
      | Inr solution \<Rightarrow>
          (let cRW = map snd solution;
               cSW = map fst solution;
               aRW = map (CoFlow_activity self) cRW;
               aSW = map (CoFlow_activity self) cSW
           in (case cf_membrane self of
                 None \<Rightarrow> Inl AttributeError
               | Some m \<Rightarrow>
                   (let preF = m_a m * 2 * cf_R self * cf_Temp self / cf_Fad self;
                        E = map2 (\<lambda>s r. preF * ln (s / r)) aSW aRW;
                        rRW = map (water_ohmic_drop self) cRW;
                        rSW = map (water_ohmic_drop self) cSW;
                        Rcell = map2 (\<lambda>r s. m_Raem m + m_Rcem m + r + s) rRW rSW;
                        J = map2 (\<lambda>e r. (e - cf_Uload self) / r) E Rcell;
                        pw = power_density simps (cf_Uload self) E Rcell
                               (cf_W self) (cf_L self) (cf_x self)
                    in (case efficiencies cRW cSW (cf_fRW self) (cf_fSW self)
                               (cf_Temp self) (fst pw) of
                          Inl e \<Rightarrow> Inl e
                        | Inr eta \<Rightarrow>
                            Inr (self\<lparr>cf_cRW := Some cRW, cf_cSW := Some cSW,
                                      cf_E := Some E, cf_Rcell := Some Rcell, cf_J := Some J,
                                      cf_power := Some (fst pw), cf_pd_avg := Some (snd pw),
                                      cf_eta_energy := Some (fst eta),
                                      cf_eta_thermo := Some (snd eta),
                                      cf_solved := True\<rparr>))))))"

text \<open>
  The run of main.py: construct the stack from the configuration, then solve it.
\<close>

definition run ::
  "integrator \<Rightarrow> quadrature \<Rightarrow> real \<Rightarrow> real \<Rightarrow> real \<Rightarrow> real \<Rightarrow> real \<Rightarrow> string \<Rightarrow> real \<Rightarrow> real \<Rightarrow> real
     \<Rightarrow> int \<Rightarrow> error + CoFlow" where
  "run adv simps tRW tSW W L d membranes Uload cRW0 cSW0 intervals =
     (case CoFlow_init tRW tSW W L d membranes Uload cRW0 cSW0 intervals of
        Inl e \<Rightarrow> Inl e
      | Inr self \<Rightarrow> solve_system adv simps self)"

section \<open>Configurations and the emf relation\<close>

text \<open>
  The configurations the solver is meant for: positive residence times and geometry, one
  of the two membrane labels compared in \<open>CoFlow.__init__\<close>, and at least two grid
  points. The widgets of main.py produce only such values.
\<close>

definition valid_configuration ::
  "real \<Rightarrow> real \<Rightarrow> real \<Rightarrow> real \<Rightarrow> real \<Rightarrow> string \<Rightarrow> int \<Rightarrow> bool" where
  "valid_configuration tRW tSW W L d membranes intervals \<longleftrightarrow>
     0 < tRW \<and> 0 < tSW \<and> 0 < W \<and> 0 < L \<and> 0 < d
     \<and> (membranes = ''Ideal CEM/AEM'' \<or> membranes = ''Fujifilm CEM/AEM type 10'')
     \<and> 2 \<le> intervals"


section \<open>Properties of the correlation\<close>

lemma float_pow_zero_base: "0 < y \<Longrightarrow> float_pow 0 y = 0"
  by (simp add: float_pow_def)

text \<open>
  C5. For every valid salt record, the correlation evaluated at ionic strength 0 gives
  the osmotic coefficient 1 and the activity coefficient 1 (so within any tolerance),
  by the algebra of the two formulas: neither has a branch on the ionic strength.
\<close>

theorem TCPC_osmo_at_zero:
  assumes "valid_salt s"
  shows "osmo s 0 = 1 \<and> TCPC s 0 = 1 \<and> \<bar>TCPC s 0 - 1\<bar> \<le> 1 / 10 ^ 9"
proof -
  from assms have n: "0 < 2 * salt_n s"
    by (simp add: valid_salt_def)
  have p: "float_pow 0 (2 * salt_n s) = 0"
    using n by (rule float_pow_zero_base)
  have o: "osmo s 0 = 1"
    by (simp add: osmo_def p float_pow_zero_base)
  have t: "TCPC s 0 = 1"
    by (simp add: TCPC_def p float_pow_zero_base)
  show ?thesis
    using o t by simp
qed

theorem TCPC_osmo_at_zero_witness:
  "valid_salt NaCl \<and> osmo NaCl 0 = 1 \<and> TCPC NaCl 0 = 1"
proof -
  have v: "valid_salt NaCl"
    by (simp add: valid_salt_def NaCl_def)
  show ?thesis
    using v TCPC_osmo_at_zero [OF v] by simp
qed

section \<open>Properties of the exergy model\<close>

lemma moles_total:
  "snd (snd (snd (moles C f))) = fst (moles C f) + fst (snd (moles C f)) + fst (snd (snd (moles C f)))"
  by (simp add: moles_def Let_def)

text \<open>
  C8. Whenever \<open>moles C f\<close> has a positive total molar flow, the three mole fractions
  of \<open>fractions (moles C f)\<close> sum to 1, hence to 1 within 1e-9.
\<close>

theorem fractions_sum_one:
  assumes "0 < snd (snd (snd (moles C f)))"
  shows "(case fractions (moles C f) of (xNa, xCl, xH2O) \<Rightarrow>
            xNa + xCl + xH2O = 1 \<and> \<bar>xNa + xCl + xH2O - 1\<bar> \<le> 1 / 10 ^ 9)"
proof -
  obtain n0 n1 n2 n3 where m: "moles C f = (n0, n1, n2, n3)"
    by (cases "moles C f") auto
  from moles_total [of C f] m have tot: "n3 = n0 + n1 + n2"
    by simp
  from assms m have pos: "n3 \<noteq> 0"
    by simp
  have "n0 / n3 + n1 / n3 + n2 / n3 = (n0 + n1 + n2) / n3"
    by (simp add: add_divide_distrib)
  also have "\<dots> = 1"
    using tot pos by simp
  finally show ?thesis
    by (simp add: m)
qed

theorem fractions_sum_one_witness:
  "0 < snd (snd (snd (moles 512 1))) \<and>
   (case fractions (moles 512 1) of (xNa, xCl, xH2O) \<Rightarrow> xNa + xCl + xH2O = 1)"
proof -
  have h: "0 < snd (snd (snd (moles 512 1)))"
    by (simp add: moles_def Let_def)
  show ?thesis
    using h fractions_sum_one [OF h] by (auto split: prod.splits)
qed

text \<open>
  Where the concentration is positive and below 998.7 / 0.02094 mol/m3 and the flow is
  positive, the three mole fractions are positive, so every logarithm of \<open>entropy\<close>
  has a positive argument.
\<close>

lemma fractions_positive:
  assumes "0 < C" "0.02094 * C < 998.7" "0 < f"
  shows "case fractions (moles C f) of (xNa, xCl, xH2O) \<Rightarrow> 0 < xNa \<and> 0 < xCl \<and> 0 < xH2O"
proof -
  define nNa where "nNa = C * f"
  define nH2O where
    "nH2O = f * ((0.0375 * (C / 1000) + 0.9987) * 1000 - C * (58.44 / 1000)) / (18.01 / 1000)"
  have m: "moles C f = (nNa, nNa, nH2O, nNa + nNa + nH2O)"
    by (simp add: moles_def Let_def nNa_def nH2O_def)
  have w: "0 < (0.0375 * (C / 1000) + 0.9987) * 1000 - C * (58.44 / 1000)"
    using assms(2) by (simp add: algebra_simps)
  have na: "0 < nNa"
    using assms by (simp add: nNa_def)
  have "0 < f * ((0.0375 * (C / 1000) + 0.9987) * 1000 - C * (58.44 / 1000))"
    using w assms(3) by (rule mult_pos_pos [rotated])
  then have h: "0 < nH2O"
    unfolding nH2O_def by (rule divide_pos_pos) simp
  have tot: "0 < nNa + nNa + nH2O"
    using na h by simp
  show ?thesis
    using na h tot by (simp add: m)
qed

subsection \<open>The entropy rate is homogeneous in the flow rate\<close>





subsection \<open>The efficiencies\<close>

lemma broadcast2_same_length:
  assumes "length u = length v"
  shows "broadcast2 g u v = Inr (map2 g u v)"
  using assms by (simp add: broadcast2_def)

lemma map2_nth0:
  assumes "u \<noteq> []" "length v = length u"
  shows "map2 g u v ! 0 = g (u ! 0) (v ! 0)"
  using assms by (cases u; cases v) auto


lemma efficiencies_unfold:
  assumes "cSW \<noteq> []" "length cRW = length cSW"
  shows "efficiencies cRW cSW fRW fSW Temp P =
           Inr (np_divide (100 * P)
                  (snd (exergy Temp (cSW ! 0) (cRW ! 0)
                          ((fSW * cSW ! 0 + fRW * cRW ! 0) / (fRW + fSW)) fSW fRW (fRW + fSW))),
                np_divide (100 * P)
                  (snd (exergy Temp (cSW ! 0) (cRW ! 0)
                          ((fSW * cSW ! 0 + fRW * cRW ! 0) / (fRW + fSW)) fSW fRW (fRW + fSW))
                   - snd (exergy Temp (last cSW) (last cRW)
                          ((fSW * last cSW + fRW * last cRW) / (fRW + fSW)) fSW fRW (fRW + fSW))))"
proof -
  from assms have ne: "cRW \<noteq> []"
    by auto
  have b: "broadcast2 (\<lambda>s r. (fSW * s + fRW * r) / (fRW + fSW)) cSW cRW
             = Inr (map2 (\<lambda>s r. (fSW * s + fRW * r) / (fRW + fSW)) cSW cRW)"
    using assms(2) by (simp add: broadcast2_same_length)
  have z: "map2 (\<lambda>s r. (fSW * s + fRW * r) / (fRW + fSW)) cSW cRW ! 0
             = (fSW * cSW ! 0 + fRW * cRW ! 0) / (fRW + fSW)"
    using assms by (rule map2_nth0)
  show ?thesis
    unfolding efficiencies_def Let_def
    using assms(1) ne by (simp only: b z) simp
qed







subsection \<open>The grid, the integrator and the solved state\<close>

lemma linspace_length: "length (linspace start stop num) = num"
  by (simp add: linspace_def Let_def)

lemma linspace_nth:
  assumes "2 \<le> num" "i < num"
  shows "linspace start stop num ! i = start + real i * ((stop - start) / real (num - 1))"
proof (cases "i = num - 1")
  case True
  have "real (num - 1) * ((stop - start) / real (num - 1)) = stop - start"
    using assms(1) by simp
  then show ?thesis
    using assms True by (simp add: linspace_def Let_def)
next
  case False
  then show ?thesis
    using assms by (simp add: linspace_def Let_def)
qed

lemma linspace_first:
  assumes "2 \<le> num"
  shows "linspace start stop num ! 0 = start"
  using linspace_nth [of num 0 start stop] assms by simp

lemma linspace_last:
  assumes "2 \<le> num"
  shows "last (linspace start stop num) = stop"
proof -
  have ne: "linspace start stop num \<noteq> []"
    using assms linspace_length [of start stop num] by auto
  have "last (linspace start stop num) = linspace start stop num ! (num - 1)"
    using ne by (simp add: last_conv_nth linspace_length)
  also have "\<dots> = start + real (num - 1) * ((stop - start) / real (num - 1))"
    using assms by (intro linspace_nth) auto
  also have "\<dots> = stop"
    using assms by simp
  finally show ?thesis .
qed

lemma linspace_step:
  assumes "2 \<le> num" "i + 1 < num"
  shows "linspace start stop num ! (i + 1) - linspace start stop num ! i
           = (stop - start) / real (num - 1)"
proof -
  have a: "linspace start stop num ! (i + 1)
             = start + real (i + 1) * ((stop - start) / real (num - 1))"
    using assms by (intro linspace_nth) auto
  have b: "linspace start stop num ! i = start + real i * ((stop - start) / real (num - 1))"
    using assms by (intro linspace_nth) auto
  define s where "s = (stop - start) / real (num - 1)"
  have "start + real (i + 1) * s - (start + real i * s) = s"
    by (simp add: algebra_simps)
  then show ?thesis
    unfolding a b s_def .
qed

lemma linspace_nonempty:
  assumes "0 < num"
  shows "linspace start stop num \<noteq> []"
  using assms linspace_length [of start stop num] by auto

lemma odeint_rows_length:
  "length (odeint_rows adv func rows ts rest) = length rows + length rest"
  by (induction rest arbitrary: rows ts) simp_all

lemma odeint_rows_append:
  "\<exists>tail. odeint_rows adv func rows ts rest = rows @ tail \<and> length tail = length rest"
proof (induction rest arbitrary: rows ts)
  case Nil
  show ?case
    by simp
next
  case (Cons t rest)
  obtain tail where t: "odeint_rows adv func (rows @ [adv func rows ts t]) (ts @ [t]) rest
                          = (rows @ [adv func rows ts t]) @ tail"
      and l: "length tail = length rest"
    using Cons.IH by blast
  have "odeint_rows adv func rows ts (t # rest) = rows @ (adv func rows ts t # tail)"
    using t by simp
  then show ?case
    using l by (intro exI [of _ "adv func rows ts t # tail"]) simp
qed

lemma odeint_rows_first:
  "odeint_rows adv func [y0] ts rest ! 0 = y0"
  using odeint_rows_append [of adv func "[y0]" ts rest] by auto

lemma odeint_rows_nonempty:
  "odeint_rows adv func [y0] ts rest \<noteq> []"
  using odeint_rows_append [of adv func "[y0]" ts rest] by auto

lemma dQdx_known:
  assumes "cf_membrane self = Some m"
  shows "\<exists>dy. dQdx self Q x = Inr dy"
  using assms by (cases Q) (simp add: dQdx_def Let_def)

lemma dQdx_unset:
  assumes "cf_membrane self = None"
  shows "dQdx self Q x = Inl AttributeError"
  using assms by (cases Q) (simp add: dQdx_def Let_def)

lemma odeint_known:
  assumes "cf_membrane self = Some m" "t = t0 # rest"
  shows "odeint adv (dQdx self) y0 t = Inr (odeint_rows adv (dQdx self) [y0] [t0] rest)"
proof -
  obtain dy where "dQdx self y0 t0 = Inr dy"
    using dQdx_known [OF assms(1)] by blast
  then show ?thesis
    using assms(2) by (simp add: odeint_def)
qed

lemma solve_system_known:
  assumes m: "cf_membrane self = Some m" and t: "cf_x self = t0 # rest"
    and sol: "sol = odeint_rows adv (dQdx self) [cf_Qzero self] [t0] rest"
  shows "\<exists>s'. solve_system adv simps self = Inr s'
           \<and> cf_solved s'
           \<and> cf_membrane s' = Some m
           \<and> cf_R s' = cf_R self \<and> cf_Temp s' = cf_Temp self \<and> cf_Fad s' = cf_Fad self
           \<and> cf_x s' = cf_x self
           \<and> cf_cSW s' = Some (map fst sol)
           \<and> cf_cRW s' = Some (map snd sol)
           \<and> cf_E s' = Some (map2 (\<lambda>s r. (m_a m * 2 * cf_R self * cf_Temp self / cf_Fad self)
                                            * ln (s / r))
                                 (map (CoFlow_activity self) (map fst sol))
                                 (map (CoFlow_activity self) (map snd sol)))"
proof -
  have o: "odeint adv (dQdx self) (cf_Qzero self) (cf_x self) = Inr sol"
    using odeint_known [OF m t] sol by simp
  have ne: "sol \<noteq> []"
    unfolding sol by (rule odeint_rows_nonempty)
  have ne1: "map fst sol \<noteq> []" and len: "length (map snd sol) = length (map fst sol)"
    using ne by simp_all
  show ?thesis
    unfolding solve_system_def o
    using m by (simp add: Let_def efficiencies_unfold [OF ne1 len])
qed

lemma CoFlow_init_ok:
  assumes "tSW \<noteq> 0" "tRW \<noteq> 0" "0 \<le> intervals"
  shows "\<exists>self. CoFlow_init tRW tSW W L d membranes Uload cRW0 cSW0 intervals = Inr self
           \<and> cf_x self = linspace 0 L (nat intervals)
           \<and> cf_Qzero self = (cSW0, cRW0)
           \<and> cf_Uload self = Uload
           \<and> cf_R self = 8.3143 \<and> cf_Temp self = 298 \<and> cf_Fad self = 96485
           \<and> cf_W self = W \<and> cf_L self = L
           \<and> \<not> cf_solved self
           \<and> cf_membrane self =
               (if membranes = ''Fujifilm CEM/AEM type 10'' then Some fujifilm_membrane
                else if membranes = ''Ideal CEM/AEM'' then Some ideal_membrane else None)"
  using assms by (simp add: CoFlow_init_def Let_def)

lemma linspace_Cons:
  assumes "0 < num"
  shows "\<exists>t0 rest. linspace start stop num = t0 # rest \<and> length rest = num - 1"
proof -
  have "length (linspace start stop num) = num"
    by (rule linspace_length)
  then show ?thesis
    using assms by (cases "linspace start stop num") auto
qed

lemma run_known:
  assumes "tSW \<noteq> 0" "tRW \<noteq> 0" "0 < intervals"
    and mem: "membranes = ''Ideal CEM/AEM'' \<or> membranes = ''Fujifilm CEM/AEM type 10''"
  shows "\<exists>self m t0 rest s' sol.
           CoFlow_init tRW tSW W L d membranes Uload cRW0 cSW0 intervals = Inr self
         \<and> cf_membrane self = Some m
         \<and> (m = ideal_membrane \<or> m = fujifilm_membrane)
         \<and> cf_x self = linspace 0 L (nat intervals)
         \<and> cf_x self = t0 # rest
         \<and> sol = odeint_rows adv (dQdx self) [(cSW0, cRW0)] [t0] rest
         \<and> run adv simps tRW tSW W L d membranes Uload cRW0 cSW0 intervals = Inr s'
         \<and> solve_system adv simps self = Inr s'
         \<and> cf_solved s'
         \<and> cf_membrane s' = Some m
         \<and> cf_x s' = cf_x self
         \<and> cf_cSW s' = Some (map fst sol)
         \<and> cf_cRW s' = Some (map snd sol)
         \<and> cf_E s' = Some (map2 (\<lambda>s r. (m_a m * 2 * 8.3143 * 298 / 96485) * ln (s / r))
                               (map (CoFlow_activity self) (map fst sol))
                               (map (CoFlow_activity self) (map snd sol)))"
proof -
  obtain self where i: "CoFlow_init tRW tSW W L d membranes Uload cRW0 cSW0 intervals = Inr self"
    and x: "cf_x self = linspace 0 L (nat intervals)"
    and q: "cf_Qzero self = (cSW0, cRW0)"
    and c: "cf_R self = 8.3143" "cf_Temp self = 298" "cf_Fad self = 96485"
    and mm: "cf_membrane self =
               (if membranes = ''Fujifilm CEM/AEM type 10'' then Some fujifilm_membrane
                else if membranes = ''Ideal CEM/AEM'' then Some ideal_membrane else None)"
    using CoFlow_init_ok [of tSW tRW intervals W L d membranes Uload cRW0 cSW0] assms(1-3)
    by auto
  obtain m where m: "cf_membrane self = Some m" and mk: "m = ideal_membrane \<or> m = fujifilm_membrane"
    using mm mem by auto
  obtain t0 rest where t: "cf_x self = t0 # rest"
    using linspace_Cons [of "nat intervals" 0 L] assms(3) x by auto
  define sol where "sol = odeint_rows adv (dQdx self) [cf_Qzero self] [t0] rest"
  obtain s' where s: "solve_system adv simps self = Inr s'" "cf_solved s'"
      "cf_membrane s' = Some m" "cf_x s' = cf_x self"
      "cf_cSW s' = Some (map fst sol)" "cf_cRW s' = Some (map snd sol)"
      "cf_E s' = Some (map2 (\<lambda>s r. (m_a m * 2 * cf_R self * cf_Temp self / cf_Fad self)
                                            * ln (s / r))
                                 (map (CoFlow_activity self) (map fst sol))
                                 (map (CoFlow_activity self) (map snd sol)))"
    using solve_system_known [OF m t sol_def, of simps] by blast
  have r: "run adv simps tRW tSW W L d membranes Uload cRW0 cSW0 intervals = Inr s'"
    by (simp add: run_def i s(1))
  show ?thesis
    using i m mk x t sol_def s r q c by (intro exI [of _ self] exI [of _ m] exI [of _ t0]
        exI [of _ rest] exI [of _ s'] exI [of _ sol]) simp
qed

lemma solve_system_unset:
  assumes "cf_membrane self = None"
  shows "solve_system adv simps self = Inl AttributeError"
proof (cases "cf_x self")
  case Nil
  then show ?thesis
    using assms by (simp add: solve_system_def odeint_def Let_def)
next
  case (Cons t0 rest)
  then show ?thesis
    using assms dQdx_unset [OF assms] by (simp add: solve_system_def odeint_def)
qed





lemma linspace_two: "linspace start stop 2 = [start, stop]"
  by (simp add: linspace_def Let_def upt_rec)

text \<open>
  C1. A membrane label that matches neither string compared by the constructor is not
  rejected. With \<open>'ideal membranes'\<close>, the value the constructor's own docstring names,
  construction returns an object on which no membrane attribute is set, and solving it
  fails with AttributeError raised by \<open>dQdx\<close> when odeint first evaluates it.
\<close>

theorem unknown_membrane_not_rejected:
  "map_sum id (\<lambda>self. (cf_membrane self, cf_solved self,
                        odeint euler_step (dQdx self) (cf_Qzero self) (cf_x self)))
     (CoFlow_init 22 22 (22 / 100) (22 / 100) (1 / 10 ^ 4) ''ideal membranes'' (8 / 100)
        (171 / 10) 512 100) = Inr (None, False, Inl AttributeError)
   \<and> run euler_step trapezoid 22 22 (22 / 100) (22 / 100) (1 / 10 ^ 4) ''ideal membranes''
       (8 / 100) (171 / 10) 512 100 = Inl AttributeError"
proof -
  obtain self where
    i: "CoFlow_init 22 22 (22 / 100) (22 / 100) (1 / 10 ^ 4) ''ideal membranes'' (8 / 100)
          (171 / 10) 512 100 = Inr self"
    and m: "cf_membrane self = None" and u: "\<not> cf_solved self"
    and x: "cf_x self = linspace 0 (22 / 100) (nat 100)"
    using CoFlow_init_ok [of 22 22 100 "22 / 100" "22 / 100" "1 / 10 ^ 4" "''ideal membranes''"
        "8 / 100" "171 / 10" 512] by auto
  obtain t0 rest where c: "cf_x self = t0 # rest"
    using linspace_Cons [of "nat 100" 0 "22 / 100"] x by auto
  have o: "odeint euler_step (dQdx self) (cf_Qzero self) (cf_x self) = Inl AttributeError"
    using dQdx_unset [OF m] by (simp add: odeint_def c)
  have "solve_system euler_step trapezoid self = Inl AttributeError"
    using m by (rule solve_system_unset)
  then show ?thesis
    using i m u o by (simp add: run_def)
qed

text \<open>
  C3, as the code has it. \<open>solve_system\<close> makes no convergence or physicality check:
  for every valid configuration and every integrator, whatever rows its steps return,
  the run ends without an error, the stored concentration profile is exactly the rows
  odeint returned (nothing is substituted or clipped), the profile is post-processed and
  the system is marked solved.
\<close>

theorem solve_system_keeps_any_profile:
  assumes "valid_configuration tRW tSW W L d membranes intervals"
  shows "\<exists>self s' sol.
           CoFlow_init tRW tSW W L d membranes Uload cRW0 cSW0 intervals = Inr self
         \<and> odeint adv (dQdx self) (cSW0, cRW0) (cf_x self) = Inr sol
         \<and> run adv simps tRW tSW W L d membranes Uload cRW0 cSW0 intervals = Inr s'
         \<and> cf_solved s'
         \<and> cf_cSW s' = Some (map fst sol) \<and> cf_cRW s' = Some (map snd sol)"
proof -
  from assms have t: "tSW \<noteq> 0" "tRW \<noteq> 0" and n: "0 < intervals"
    and mem: "membranes = ''Ideal CEM/AEM'' \<or> membranes = ''Fujifilm CEM/AEM type 10''"
    by (auto simp add: valid_configuration_def)
  obtain self m t0 rest s' sol where
    i: "CoFlow_init tRW tSW W L d membranes Uload cRW0 cSW0 intervals = Inr self"
    and m: "cf_membrane self = Some m"
    and c: "cf_x self = t0 # rest"
    and sol: "sol = odeint_rows adv (dQdx self) [(cSW0, cRW0)] [t0] rest"
    and r: "run adv simps tRW tSW W L d membranes Uload cRW0 cSW0 intervals = Inr s'"
    and s: "cf_solved s'" "cf_cSW s' = Some (map fst sol)" "cf_cRW s' = Some (map snd sol)"
    using run_known [OF t n mem, of W L d Uload cRW0 cSW0 adv simps] by blast
  have o: "odeint adv (dQdx self) (cSW0, cRW0) (cf_x self) = Inr sol"
    using odeint_known [OF m c, of adv "(cSW0, cRW0)"] sol by simp
  show ?thesis
    using i o r s by blast
qed

theorem solve_system_keeps_any_profile_witness:
  "valid_configuration 22 22 (22 / 100) (22 / 100) (1 / 10 ^ 4) ''Fujifilm CEM/AEM type 10'' 20
   \<and> (\<exists>self s' sol.
           CoFlow_init 22 22 (22 / 100) (22 / 100) (1 / 10 ^ 4) ''Fujifilm CEM/AEM type 10''
             (8 / 100) (171 / 10) 512 20 = Inr self
         \<and> odeint failed_step (dQdx self) (512, 171 / 10) (cf_x self) = Inr sol
         \<and> run failed_step trapezoid 22 22 (22 / 100) (22 / 100) (1 / 10 ^ 4)
             ''Fujifilm CEM/AEM type 10'' (8 / 100) (171 / 10) 512 20 = Inr s'
         \<and> cf_solved s'
         \<and> cf_cSW s' = Some (map fst sol) \<and> cf_cRW s' = Some (map snd sol))"
proof -
  have v: "valid_configuration 22 22 (22 / 100) (22 / 100) (1 / 10 ^ 4)
             ''Fujifilm CEM/AEM type 10'' 20"
    by (simp add: valid_configuration_def)
  show ?thesis
    using v solve_system_keeps_any_profile [OF v, of "8 / 100" "171 / 10" 512 failed_step trapezoid]
    by blast
qed

text \<open>
  A step that has failed and left a negative concentration in the second row: the run
  returns a solved state holding that row.
\<close>

theorem failed_integration_counterexample:
  "map_sum id (\<lambda>s'. (cf_solved s', cf_cSW s', cf_cRW s'))
     (run failed_step trapezoid 22 22 (22 / 100) (22 / 100) (1 / 10 ^ 4) ''Ideal CEM/AEM''
        (8 / 100) (171 / 10) 512 2) = Inr (True, Some [512, - 1], Some [171 / 10, - 1])"
proof -
  obtain self m t0 rest s' sol where
    x: "cf_x self = linspace 0 (22 / 100) (nat 2)"
    and c: "cf_x self = t0 # rest"
    and sol: "sol = odeint_rows failed_step (dQdx self) [(512, 171 / 10)] [t0] rest"
    and r: "run failed_step trapezoid 22 22 (22 / 100) (22 / 100) (1 / 10 ^ 4) ''Ideal CEM/AEM''
              (8 / 100) (171 / 10) 512 2 = Inr s'"
    and s: "cf_solved s'" "cf_cSW s' = Some (map fst sol)" "cf_cRW s' = Some (map snd sol)"
    using run_known [of 22 22 2 "''Ideal CEM/AEM''" "22 / 100" "22 / 100" "1 / 10 ^ 4"
        "8 / 100" "171 / 10" 512 failed_step trapezoid] by auto
  have "t0 # rest = [0, 22 / 100]"
    using x c by (simp add: linspace_two)
  then have "sol = [(512, 171 / 10), (- 1, - 1)]"
    by (simp add: sol failed_step_def)
  then show ?thesis
    using r s by simp
qed

text \<open>
  C6. For every valid configuration the spatial domain has \<open>intervals\<close> positions, starts
  at 0, ends at \<open>L\<close>, has the fixed step \<open>L / (intervals - 1)\<close> and is strictly
  increasing; the solved concentration profile has \<open>intervals\<close> points per stream, on
  the same grid, and its first point is the configured inlet concentration of each stream.
\<close>

theorem domain_and_profile_shape:
  assumes "valid_configuration tRW tSW W L d membranes intervals"
  shows "\<exists>self s' cSW cRW.
           CoFlow_init tRW tSW W L d membranes Uload cRW0 cSW0 intervals = Inr self
         \<and> length (cf_x self) = nat intervals
         \<and> cf_x self ! 0 = 0
         \<and> last (cf_x self) = L
         \<and> (\<forall>i. i + 1 < nat intervals \<longrightarrow>
               cf_x self ! (i + 1) - cf_x self ! i = L / real (nat intervals - 1))
         \<and> (\<forall>i j. i < j \<and> j < nat intervals \<longrightarrow> cf_x self ! i < cf_x self ! j)
         \<and> solve_system adv simps self = Inr s'
         \<and> cf_x s' = cf_x self
         \<and> cf_cSW s' = Some cSW \<and> cf_cRW s' = Some cRW
         \<and> length cSW = nat intervals \<and> length cRW = nat intervals
         \<and> cSW ! 0 = cSW0 \<and> cRW ! 0 = cRW0"
proof -
  from assms have t: "tSW \<noteq> 0" "tRW \<noteq> 0" and n: "0 < intervals" "2 \<le> nat intervals"
    and L: "0 < L"
    and mem: "membranes = ''Ideal CEM/AEM'' \<or> membranes = ''Fujifilm CEM/AEM type 10''"
    by (auto simp add: valid_configuration_def)
  obtain self m t0 rest s' sol where
    i: "CoFlow_init tRW tSW W L d membranes Uload cRW0 cSW0 intervals = Inr self"
    and x: "cf_x self = linspace 0 L (nat intervals)"
    and c: "cf_x self = t0 # rest"
    and sol: "sol = odeint_rows adv (dQdx self) [(cSW0, cRW0)] [t0] rest"
    and s: "solve_system adv simps self = Inr s'" "cf_x s' = cf_x self"
      "cf_cSW s' = Some (map fst sol)" "cf_cRW s' = Some (map snd sol)"
    using run_known [OF t n(1) mem, of W L d Uload cRW0 cSW0 adv simps] by blast
  have len: "length (cf_x self) = nat intervals"
    by (simp add: x linspace_length)
  have first: "cf_x self ! 0 = 0"
    using n(2) by (simp add: x linspace_first)
  have lst: "last (cf_x self) = L"
    using n(2) by (simp add: x linspace_last)
  have step: "cf_x self ! (i + 1) - cf_x self ! i = L / real (nat intervals - 1)"
    if "i + 1 < nat intervals" for i
    using linspace_step [OF n(2) that, of 0 L] by (simp add: x)
  have pos: "0 < L / real (nat intervals - 1)"
    using L n(2) by simp
  have mono: "cf_x self ! i < cf_x self ! j" if "i < j \<and> j < nat intervals" for i j
  proof -
    have a: "cf_x self ! i = 0 + real i * ((L - 0) / real (nat intervals - 1))"
      unfolding x using n(2) that by (intro linspace_nth) auto
    have b: "cf_x self ! j = 0 + real j * ((L - 0) / real (nat intervals - 1))"
      unfolding x using n(2) that by (intro linspace_nth) auto
    have "real i * (L / real (nat intervals - 1)) < real j * (L / real (nat intervals - 1))"
      using that pos by (intro mult_strict_right_mono) auto
    then show ?thesis
      by (simp add: a b)
  qed
  have sl: "length sol = nat intervals"
    using len c by (simp add: sol odeint_rows_length)
  have s0: "sol ! 0 = (cSW0, cRW0)"
    unfolding sol by (rule odeint_rows_first)
  have sne: "0 < length sol"
    using sl n(2) by simp
  have f0: "map fst sol ! 0 = cSW0" and r0: "map snd sol ! 0 = cRW0"
    using sne s0 by (simp_all add: nth_map)
  show ?thesis
    using i len first lst step mono s sl f0 r0
    by (intro exI [of _ self] exI [of _ s'] exI [of _ "map fst sol"] exI [of _ "map snd sol"])
      simp
qed

theorem domain_and_profile_shape_witness:
  "valid_configuration 22 22 (22 / 100) (22 / 100) (1 / 10 ^ 4) ''Ideal CEM/AEM'' 100
   \<and> (\<exists>self s' cSW cRW.
           CoFlow_init 22 22 (22 / 100) (22 / 100) (1 / 10 ^ 4) ''Ideal CEM/AEM'' (8 / 100)
             (171 / 10) 512 100 = Inr self
         \<and> length (cf_x self) = 100
         \<and> last (cf_x self) = 22 / 100
         \<and> solve_system euler_step trapezoid self = Inr s'
         \<and> cf_cSW s' = Some cSW \<and> cf_cRW s' = Some cRW
         \<and> length cSW = 100 \<and> length cRW = 100
         \<and> cSW ! 0 = 512 \<and> cRW ! 0 = 171 / 10)"
proof -
  have v: "valid_configuration 22 22 (22 / 100) (22 / 100) (1 / 10 ^ 4) ''Ideal CEM/AEM'' 100"
    by (simp add: valid_configuration_def)
  show ?thesis
    using v domain_and_profile_shape [OF v, of "8 / 100" "171 / 10" 512 euler_step trapezoid]
    by auto
qed



text \<open>
  C7. \<open>power_density\<close> forms the power density \<open>(E * U - U^2) / Rcell\<close> at each
  point, takes as average power density the library's Simpson-rule integral of it over
  \<open>x\<close> divided by \<open>2 * L\<close>, and as total power that average times \<open>2 * W * L\<close>.
\<close>

theorem power_density_simpson:
  assumes "length Rcell = length E"
  shows "\<exists>Pd. length Pd = length E
           \<and> (\<forall>i < length E. Pd ! i = (E ! i * U - U ^ 2) / Rcell ! i)
           \<and> snd (power_density simps U E Rcell W L x) = simps Pd x / (2 * L)
           \<and> fst (power_density simps U E Rcell W L x)
               = snd (power_density simps U E Rcell W L x) * (2 * W * L)"
proof -
  define Pd where "Pd = map2 (\<lambda>e r. (e * U - U ^ 2) / r) E Rcell"
  have l: "length Pd = length E"
    using assms by (simp add: Pd_def)
  have p: "Pd ! i = (E ! i * U - U ^ 2) / Rcell ! i" if "i < length E" for i
    using that assms by (simp add: Pd_def)
  have a: "snd (power_density simps U E Rcell W L x) = simps Pd x / (2 * L)"
    by (simp add: power_density_def Let_def Pd_def)
  have t: "fst (power_density simps U E Rcell W L x)
             = snd (power_density simps U E Rcell W L x) * (2 * W * L)"
    by (simp add: power_density_def Let_def)
  show ?thesis
    using l p a t by blast
qed

theorem power_density_simpson_witness:
  "length [1 / 1000, 2 / 1000 :: real] = length [15 / 100, 14 / 100 :: real]
   \<and> (\<exists>Pd. length Pd = 2
        \<and> Pd ! 0 = (15 / 100 * (8 / 100) - (8 / 100) ^ 2) / (1 / 1000)
        \<and> snd (power_density trapezoid (8 / 100) [15 / 100, 14 / 100] [1 / 1000, 2 / 1000]
                 (22 / 100) (22 / 100) [0, 22 / 100]) = trapezoid Pd [0, 22 / 100] / (2 * (22 / 100))
        \<and> fst (power_density trapezoid (8 / 100) [15 / 100, 14 / 100] [1 / 1000, 2 / 1000]
                 (22 / 100) (22 / 100) [0, 22 / 100])
            = snd (power_density trapezoid (8 / 100) [15 / 100, 14 / 100] [1 / 1000, 2 / 1000]
                 (22 / 100) (22 / 100) [0, 22 / 100]) * (2 * (22 / 100) * (22 / 100)))"
proof -
  have h: "length [1 / 1000, 2 / 1000 :: real] = length [15 / 100, 14 / 100 :: real]"
    by simp
  obtain Pd where "length Pd = length [15 / 100, 14 / 100 :: real]"
    and "\<forall>i < length [15 / 100, 14 / 100 :: real].
           Pd ! i = ([15 / 100, 14 / 100] ! i * (8 / 100) - (8 / 100) ^ 2) / [1 / 1000, 2 / 1000] ! i"
    and "snd (power_density trapezoid (8 / 100) [15 / 100, 14 / 100] [1 / 1000, 2 / 1000]
                 (22 / 100) (22 / 100) [0, 22 / 100]) = trapezoid Pd [0, 22 / 100] / (2 * (22 / 100))"
    and "fst (power_density trapezoid (8 / 100) [15 / 100, 14 / 100] [1 / 1000, 2 / 1000]
                 (22 / 100) (22 / 100) [0, 22 / 100])
            = snd (power_density trapezoid (8 / 100) [15 / 100, 14 / 100] [1 / 1000, 2 / 1000]
                 (22 / 100) (22 / 100) [0, 22 / 100]) * (2 * (22 / 100) * (22 / 100))"
    using power_density_simpson [OF h, of "8 / 100" trapezoid "22 / 100" "22 / 100" "[0, 22 / 100]"]
    by blast
  then show ?thesis
    by (intro conjI h exI [of _ Pd]) auto
qed

subsection \<open>No driving force\<close>

lemma TCPC_pos: "0 < TCPC s I"
  by (simp add: TCPC_def Let_def)

lemma CoFlow_activity_nonzero:
  assumes "0 < c"
  shows "CoFlow_activity self c \<noteq> 0"
  using assms TCPC_pos [of NaCl "c / 1000"] by (simp add: CoFlow_activity_def)

lemma dQdx_equal_zero:
  assumes "cf_membrane self = Some m" "cf_Uload self = 0" "0 < c"
  shows "dQdx self (c, c) x = Inr (0, 0)"
proof -
  have "CoFlow_activity self c / CoFlow_activity self c = 1"
    using CoFlow_activity_nonzero [OF assms(3)] by simp
  then show ?thesis
    using assms(1,2) by (simp add: dQdx_def Let_def)
qed

lemma odeint_rows_equilibrium:
  assumes "exact_on_equilibria adv" "\<forall>x. func y x = Inr (0, 0)"
    and "rows \<noteq> []" "last rows = y"
  shows "odeint_rows adv func rows ts rest = rows @ replicate (length rest) y"
  using assms(3,4)
proof (induction rest arbitrary: rows ts)
  case Nil
  show ?case
    by simp
next
  case (Cons t rest)
  have a: "adv func rows ts t = y"
    using assms(1,2) Cons.prems by (simp add: exact_on_equilibria_def)
  have "odeint_rows adv func (rows @ [y]) (ts @ [t]) rest
          = (rows @ [y]) @ replicate (length rest) y"
    by (rule Cons.IH) simp_all
  then show ?case
    by (simp add: a replicate_app_Cons_same)
qed

lemma map2_replicate:
  "map2 g (replicate k u) (replicate k v) = replicate k (g u v)"
  by (simp add: zip_replicate)

text \<open>
  C9. For every valid configuration with the same positive inlet concentration \<open>c\<close> in
  both streams and \<open>Uload = 0\<close>, the right-hand side \<open>dQdx\<close> is zero at \<open>(c, c)\<close> for
  every position; with an integrator that is exact on equilibria the solved
  concentrations are \<open>c\<close> at every domain point and the emf is zero at every domain
  point.
\<close>

theorem equal_inlets_no_driving_force:
  assumes "valid_configuration tRW tSW W L d membranes intervals"
    and "0 < c" and "exact_on_equilibria adv"
  shows "\<exists>self s'.
           CoFlow_init tRW tSW W L d membranes 0 c c intervals = Inr self
         \<and> (\<forall>x. dQdx self (c, c) x = Inr (0, 0))
         \<and> solve_system adv simps self = Inr s'
         \<and> cf_cSW s' = Some (replicate (nat intervals) c)
         \<and> cf_cRW s' = Some (replicate (nat intervals) c)
         \<and> cf_E s' = Some (replicate (nat intervals) 0)"
proof -
  from assms(1) have t: "tSW \<noteq> 0" "tRW \<noteq> 0" and n: "0 < intervals"
    and mem: "membranes = ''Ideal CEM/AEM'' \<or> membranes = ''Fujifilm CEM/AEM type 10''"
    by (auto simp add: valid_configuration_def)
  obtain self m t0 rest s' sol where
    i: "CoFlow_init tRW tSW W L d membranes 0 c c intervals = Inr self"
    and m: "cf_membrane self = Some m"
    and x: "cf_x self = linspace 0 L (nat intervals)"
    and cx: "cf_x self = t0 # rest"
    and sol: "sol = odeint_rows adv (dQdx self) [(c, c)] [t0] rest"
    and s: "solve_system adv simps self = Inr s'"
      "cf_cSW s' = Some (map fst sol)" "cf_cRW s' = Some (map snd sol)"
      "cf_E s' = Some (map2 (\<lambda>s r. (m_a m * 2 * 8.3143 * 298 / 96485) * ln (s / r))
                               (map (CoFlow_activity self) (map fst sol))
                               (map (CoFlow_activity self) (map snd sol)))"
    using run_known [OF t n mem, of W L d 0 c c adv simps] by blast
  have u: "cf_Uload self = 0"
    using i CoFlow_init_ok [of tSW tRW intervals W L d membranes 0 c c] t n by auto
  have z: "\<forall>x. dQdx self (c, c) x = Inr (0, 0)"
    using dQdx_equal_zero [OF m u assms(2)] by simp
  have "sol = [(c, c)] @ replicate (length rest) (c, c)"
    unfolding sol using assms(3) z by (intro odeint_rows_equilibrium) simp_all
  also have "\<dots> = replicate (length (cf_x self)) (c, c)"
    by (simp add: cx)
  also have "\<dots> = replicate (nat intervals) (c, c)"
    by (simp add: x linspace_length)
  finally have r: "sol = replicate (nat intervals) (c, c)" .
  have one: "CoFlow_activity self c / CoFlow_activity self c = 1"
    using CoFlow_activity_nonzero [OF assms(2)] by simp
  have e: "cf_E s' = Some (replicate (nat intervals) 0)"
    by (simp add: s(4) r map2_replicate one)
  show ?thesis
    using i z s(1,2,3) e r by (intro exI [of _ self] exI [of _ s']) simp
qed

theorem equal_inlets_no_driving_force_witness:
  "valid_configuration 22 22 (22 / 100) (22 / 100) (1 / 10 ^ 4) ''Fujifilm CEM/AEM type 10'' 100
   \<and> exact_on_equilibria euler_step
   \<and> (\<exists>self s'.
           CoFlow_init 22 22 (22 / 100) (22 / 100) (1 / 10 ^ 4) ''Fujifilm CEM/AEM type 10''
             0 512 512 100 = Inr self
         \<and> dQdx self (512, 512) 0 = Inr (0, 0)
         \<and> solve_system euler_step trapezoid self = Inr s'
         \<and> cf_cSW s' = Some (replicate 100 512)
         \<and> cf_cRW s' = Some (replicate 100 512)
         \<and> cf_E s' = Some (replicate 100 0))"
proof -
  have v: "valid_configuration 22 22 (22 / 100) (22 / 100) (1 / 10 ^ 4)
             ''Fujifilm CEM/AEM type 10'' 100"
    by (simp add: valid_configuration_def)
  have p: "(0::real) < 512"
    by simp
  have e: "exact_on_equilibria euler_step"
    by (simp add: exact_on_equilibria_def euler_step_def)
  show ?thesis
    using v e equal_inlets_no_driving_force [OF v p e, of trapezoid] by auto
qed

end
